theory Spec2Isabelle
  imports Main "HOL-Library.AList"
begin

section \<open>The mortality prediction task controller\<close>

text \<open>
  A shallow embedding of the class \<open>MortalityPrediction\<close> of
  \<^verbatim>\<open>cyclops/tasks/mortality_prediction.py\<close>. The controller owns a registry of
  model handles and two lists of fitted names; everything else (the model wrappers,
  the column transformer, the metric factory, the evaluation engine, the helpers
  \<open>prepare_models\<close> and \<open>to_numpy\<close>) is a collaborator defined elsewhere. The
  collaborators are parameters of the model (the record \<open>world\<close>); every call the
  controller makes on one of them is recorded, in order, together with its arguments.
\<close>

subsection \<open>Values\<close>

text \<open>Plain Python values that travel through keyword arguments and search spaces.\<close>

datatype pyobj = PyNone | PyBool bool | PyInt int | PyStr string | PyList "pyobj list"

text \<open>
  A Python \<open>dict\<close> with string keys, in insertion order. \<open>map_of\<close> reads a key,
  \<open>AList.update\<close> stores one (in place when the key exists, at the end otherwise) and
  \<open>AList.delete\<close> removes one.
\<close>

type_synonym pydict = "(string \<times> pyobj) list"

text \<open>
  An array is the list of its items along the first axis, so that Python's \<open>len\<close> is
  \<open>length\<close>; the controller never looks inside an item.
\<close>

type_synonym ndarray = "int list list"

text \<open>
  The data a caller may pass: \<open>np.ndarray\<close>, \<open>pd.DataFrame\<close>, \<open>pd.Series\<close>, or
  a Hugging Face \<open>Dataset\<close> (its column names) or \<open>DatasetDict\<close> (its splits).
\<close>

datatype data =
    NdArray ndarray
  | DataFrame ndarray
  | Series ndarray
  | HFDataset "string list"
  | HFDatasetDict "(string \<times> string list) list"

text \<open>\<open>isinstance(X, (Dataset, DatasetDict))\<close>\<close>

fun is_hf_dataset :: "data \<Rightarrow> bool" where
  "is_hf_dataset (HFDataset cols) = True"
| "is_hf_dataset (HFDatasetDict splits) = True"
| "is_hf_dataset d = False"

text \<open>
  A model handle (\<open>WrappedModel\<close>): a scikit-learn wrapper or a PyTorch wrapper, with
  the identity of the wrapped estimator.
\<close>

datatype wrapped_model = SKModel nat | PTModel nat

text \<open>\<open>isinstance(model, SKModel)\<close>\<close>

fun is_SKModel :: "wrapped_model \<Rightarrow> bool" where
  "is_SKModel (SKModel i) = True"
| "is_SKModel (PTModel i) = False"

datatype column_transformer = ColumnTransformer nat

type_synonym model_dict = "(string \<times> wrapped_model) list"

text \<open>The argument of \<open>add_model\<close>: a catalog name, a handle, or a dict of handles.\<close>

datatype model_spec =
    ModelName string
  | ModelObject wrapped_model
  | ModelDict model_dict

subsection \<open>Exceptions and log records\<close>

text \<open>
  The text of an exception is a list of fragments: literal text, and the \<open>repr\<close> of
  a list of names where an f-string interpolates \<open>self.list_models()\<close>.
\<close>

datatype fragment = Text string | Names "string list"

datatype exn =
    ValueError "fragment list"
  | NotFittedError string
  | AssertionError
  | IndexError
  | KeyError string
  | AttributeError string
  | OtherError string

datatype level = ERROR | WARNING | INFO

type_synonym log_record = "level \<times> string"

subsection \<open>Collaborator calls\<close>

text \<open>
  One constructor for each call expression of the controller on a collaborator
  object, with the arguments in the order of the source. A call is recorded when the
  call expression is evaluated; what it returns, or raises, is the collaborator's
  business. A slice specification is known by a number, a metric by its name.
\<close>

datatype metrics_arg = MetricNames "string list" | MetricCollection "string list"

datatype call =
    FindBest_dataset wrapped_model pydict data "string list" "string list"
      "column_transformer option" pyobj pyobj "(string \<times> string) list" pydict
  | Fit_dataset wrapped_model data "string list" "string list"
      "column_transformer option" "(string \<times> string) list" pydict
  | FindBest_arrays wrapped_model pydict ndarray ndarray pyobj pyobj pydict
  | Fit_arrays wrapped_model ndarray ndarray pydict
  | LoadModel wrapped_model string pydict
  | PredictProba_dataset wrapped_model data "string list" "column_transformer option"
      string "(string \<times> string) list" pydict
  | Predict_dataset wrapped_model data "string list" "column_transformer option"
      string "(string \<times> string) list" pydict
  | PredictProba_array wrapped_model ndarray pydict
  | Predict_array wrapped_model ndarray pydict
  | Transform column_transformer ndarray
  | FitTransform column_transformer ndarray
  | Evaluate data metrics_arg "string list" "nat option" string nat "string list option"

text \<open>The calls that fit a model: \<open>fit\<close> and \<open>find_best\<close>.\<close>

fun is_fit_call :: "call \<Rightarrow> bool" where
  "is_fit_call (FindBest_dataset m p X f g tr me mt s k) = True"
| "is_fit_call (Fit_dataset m X f g tr s k) = True"
| "is_fit_call (FindBest_arrays m p X y me mt k) = True"
| "is_fit_call (Fit_arrays m X y k) = True"
| "is_fit_call c = False"

text \<open>
  The collaborators. \<open>prepare_models\<close>, \<open>to_numpy\<close> and \<open>create_metric\<close> are
  functions of their arguments. A model handle, a transformer and the evaluation
  engine are stateful objects: what a call returns may depend on every call made
  before it, so these take the history of calls as well.
\<close>

record world =
  prepare_models :: "model_spec \<Rightarrow> string option \<Rightarrow> exn + model_dict"
  to_numpy :: "data \<Rightarrow> exn + ndarray"
  create_metric :: "string \<Rightarrow> string \<Rightarrow> nat \<Rightarrow> exn + string"
  model_op :: "call list \<Rightarrow> call \<Rightarrow> exn + data"
  transform_op :: "call list \<Rightarrow> call \<Rightarrow> exn + ndarray"
  engine_op :: "call list \<Rightarrow> call \<Rightarrow> exn + pydict"

subsection \<open>The controller's state\<close>

text \<open>
  The fields of a \<open>MortalityPrediction\<close> object, and the two observable effects of
  its methods: the records sent to \<open>LOGGER\<close> and the calls made on collaborators,
  oldest first. A method returns its result, or the exception it raises, together
  with the state it leaves behind: what was logged, called or stored before an
  exception stays.
\<close>

record task =
  models :: model_dict
  task_features :: "string list"
  task_target :: "string list"
  trained_models :: "string list"
  pretrained_models :: "string list"
  log :: "log_record list"
  calls :: "call list"

definition logger :: "level \<Rightarrow> string \<Rightarrow> task \<Rightarrow> task" where
  "logger lvl msg t = t\<lparr>log := log t @ [(lvl, msg)]\<rparr>"

definition call_model :: "world \<Rightarrow> task \<Rightarrow> call \<Rightarrow> (exn + data) \<times> task" where
  "call_model w t c = (model_op w (calls t) c, t\<lparr>calls := calls t @ [c]\<rparr>)"

definition call_transform :: "world \<Rightarrow> task \<Rightarrow> call \<Rightarrow> (exn + ndarray) \<times> task" where
  "call_transform w t c = (transform_op w (calls t) c, t\<lparr>calls := calls t @ [c]\<rparr>)"

definition call_engine :: "world \<Rightarrow> task \<Rightarrow> call \<Rightarrow> (exn + pydict) \<times> task" where
  "call_engine w t c = (engine_op w (calls t) c, t\<lparr>calls := calls t @ [c]\<rparr>)"

subsection \<open>Model management\<close>

definition task_type :: string where
  "task_type = ''binary''"

definition models_count :: "task \<Rightarrow> nat" where
  "models_count t = length (models t)"

definition list_models :: "task \<Rightarrow> string list" where
  "list_models t = map fst (models t)"

text \<open>\<open>sep.join(xs)\<close>\<close>

fun join :: "string \<Rightarrow> string list \<Rightarrow> string" where
  "join sep [] = []"
| "join sep [x] = x"
| "join sep (x # y # zs) = x @ sep @ join sep (y # zs)"

text \<open>\<open>d.update(other)\<close>\<close>

definition dict_update :: "('k \<times> 'v) list \<Rightarrow> ('k \<times> 'v) list \<Rightarrow> ('k \<times> 'v) list" where
  "dict_update d other = fold (\<lambda>(k, v) m. AList.update k v m) other d"

definition add_model :: "world \<Rightarrow> task \<Rightarrow> model_spec \<Rightarrow> string option \<Rightarrow> (exn + unit) \<times> task" where
  "add_model w t model model_config_path =
     (case prepare_models w model model_config_path of
        Inl e \<Rightarrow> (Inl e, t)
      | Inr model_dict \<Rightarrow>
          if set (map fst model_dict) \<subseteq> set (list_models t) then
            (Inr (),
             logger ERROR ''Failed to add the model. A model with same name already exists.'' t)
          else
            (Inr (),
             logger INFO (join '', '' (map fst model_dict) @ '' is added to task models.'')
               (t\<lparr>models := dict_update (models t) model_dict\<rparr>)))"

text \<open>The truth value of an optional string: \<open>None\<close> and \<open>""\<close> are false.\<close>

fun truthy :: "string option \<Rightarrow> bool" where
  "truthy None = False"
| "truthy (Some s) = (s \<noteq> [])"

text \<open>\<open>str(x)\<close> of an optional string, as an f-string interpolates it.\<close>

fun str_of :: "string option \<Rightarrow> string" where
  "str_of None = ''None''"
| "str_of (Some s) = s"

text \<open>\<open>xs[0]\<close>\<close>

fun first :: "'a list \<Rightarrow> exn + 'a" where
  "first [] = Inl IndexError"
| "first (x # xs) = Inr x"

text \<open>\<open>d[k]\<close>\<close>

definition getitem :: "(string \<times> 'v) list \<Rightarrow> string \<Rightarrow> exn + 'v" where
  "getitem d k = (case map_of d k of None \<Rightarrow> Inl (KeyError k) | Some v \<Rightarrow> Inr v)"

definition get_model :: "task \<Rightarrow> string option \<Rightarrow> exn + (string \<times> wrapped_model)" where
  "get_model t model_name =
     (if models_count t > 1 \<and> \<not> truthy model_name then
        Inl (ValueError [Text ''Please specify a model from '', Names (list_models t)])
      else if truthy model_name \<and> str_of model_name \<notin> set (list_models t) then
        Inl (ValueError [Text (''The model '' @ str_of model_name
                                 @ '' does not exist. You can add the model using Task.add_model()'')])
      else
        (case (if truthy model_name then Inr (str_of model_name)
               else first (list_models t)) of
           Inl e \<Rightarrow> Inl e
         | Inr name \<Rightarrow>
             (case getitem (models t) name of
                Inl e \<Rightarrow> Inl e
              | Inr model \<Rightarrow> Inr (name, model))))"

subsection \<open>Training\<close>

text \<open>The truth value of an optional dict: \<open>None\<close> and \<open>{}\<close> are false.\<close>

fun truthy_dict :: "pydict option \<Rightarrow> bool" where
  "truthy_dict None = False"
| "truthy_dict (Some d) = (d \<noteq> [])"

fun dict_of :: "pydict option \<Rightarrow> pydict" where
  "dict_of None = []"
| "dict_of (Some d) = d"

text \<open>\<open>d.pop(k, default)\<close>: the value removed, or the default, and the dict left.\<close>

definition pop :: "pydict \<Rightarrow> string \<Rightarrow> pyobj \<Rightarrow> pyobj \<times> pydict" where
  "pop d k dflt =
     (case map_of d k of None \<Rightarrow> (dflt, d) | Some v \<Rightarrow> (v, AList.delete k d))"

fun is_not_fitted :: "exn \<Rightarrow> bool" where
  "is_not_fitted (NotFittedError m) = True"
| "is_not_fitted e = False"

text \<open>
  A string literal continued with a backslash at the end of the line keeps the
  indentation of the next line.
\<close>

definition missing_labels_msg :: string where
  "missing_labels_msg =
     ''Missing data labels 'y'. Please provide the labels for '' @ replicate 20 CHR '' ''
     @ ''the training data when not using a Hugging Face dataset '' @ replicate 20 CHR '' ''
     @ ''as the input.''"

definition not_fitted_msg :: string where
  "not_fitted_msg =
     ''It seems you have neither trained the model nor '' @ replicate 16 CHR '' ''
     @ ''loaded a pretrained model.''"

definition not_fitted_warning :: string where
  "not_fitted_warning =
     ''It seems you have neither trained the model nor '' @ replicate 20 CHR '' ''
     @ ''loaded a pretrained model.''"

text \<open>Lines 229 to 251 of \<open>train\<close>: the branch of a Hugging Face dataset.\<close>

definition train_dataset ::
  "world \<Rightarrow> task \<Rightarrow> wrapped_model \<Rightarrow> data \<Rightarrow> column_transformer option \<Rightarrow> pydict option
     \<Rightarrow> (string \<times> string) list \<Rightarrow> pydict \<Rightarrow> (exn + data) \<times> task" where
  "train_dataset w t model X transforms best_model_params splits_mapping kwargs =
     (if truthy_dict best_model_params then
        (let p0 = dict_of best_model_params;
             metric = fst (pop p0 ''metric'' PyNone);
             p1 = snd (pop p0 ''metric'' PyNone);
             method = fst (pop p1 ''method'' (PyStr ''grid''));
             p2 = snd (pop p1 ''method'' (PyStr ''grid''))
         in call_model w t
              (FindBest_dataset model p2 X (task_features t) (task_target t) transforms
                 metric method splits_mapping kwargs))
      else
        call_model w t
          (Fit_dataset model X (task_features t) (task_target t) transforms
             splits_mapping kwargs))"

text \<open>Lines 262 to 266 of \<open>train\<close>: the transform, fitted first when it is not.\<close>

definition train_transform ::
  "world \<Rightarrow> task \<Rightarrow> column_transformer option \<Rightarrow> ndarray \<Rightarrow> (exn + ndarray) \<times> task" where
  "train_transform w t transforms X =
     (case transforms of
        None \<Rightarrow> (Inr X, t)
      | Some tr \<Rightarrow>
          (case call_transform w t (Transform tr X) of
             (Inl e, t1) \<Rightarrow>
               if is_not_fitted e then call_transform w t1 (FitTransform tr X)
               else (Inl e, t1)
           | (Inr X1, t1) \<Rightarrow> (Inr X1, t1)))"

text \<open>
  Lines 254 to 282 of \<open>train\<close>: the branch of arrays and data frames. The
  \<open>assert\<close> of line 268 is executed, as it is unless Python runs with \<open>-O\<close>.
\<close>

definition train_arrays ::
  "world \<Rightarrow> task \<Rightarrow> wrapped_model \<Rightarrow> data \<Rightarrow> data option \<Rightarrow> column_transformer option
     \<Rightarrow> pydict option \<Rightarrow> pydict \<Rightarrow> (exn + data) \<times> task" where
  "train_arrays w t model X y transforms best_model_params kwargs =
     (case y of
        None \<Rightarrow> (Inl (ValueError [Text missing_labels_msg]), t)
      | Some y0 \<Rightarrow>
          (case to_numpy w X of
             Inl e \<Rightarrow> (Inl e, t)
           | Inr X1 \<Rightarrow>
               (case train_transform w t transforms X1 of
                  (Inl e, t1) \<Rightarrow> (Inl e, t1)
                | (Inr X2, t1) \<Rightarrow>
                    (case to_numpy w y0 of
                       Inl e \<Rightarrow> (Inl e, t1)
                     | Inr y1 \<Rightarrow>
                         if length X2 \<noteq> length y1 then (Inl AssertionError, t1)
                         else if truthy_dict best_model_params then
                           (let p0 = dict_of best_model_params;
                                metric = fst (pop p0 ''metric'' PyNone);
                                p1 = snd (pop p0 ''metric'' PyNone);
                                method = fst (pop p1 ''method'' (PyStr ''grid''));
                                p2 = snd (pop p1 ''method'' (PyStr ''grid''))
                            in call_model w t1
                                 (FindBest_arrays model p2 X2 y1 metric method kwargs))
                         else call_model w t1 (Fit_arrays model X2 y1 kwargs)))))"

definition train ::
  "world \<Rightarrow> task \<Rightarrow> data \<Rightarrow> data option \<Rightarrow> string option \<Rightarrow> column_transformer option
     \<Rightarrow> pydict option \<Rightarrow> (string \<times> string) list \<Rightarrow> pydict
     \<Rightarrow> (exn + wrapped_model) \<times> task" where
  "train w t X y model_name transforms best_model_params splits_mapping kwargs =
     (case get_model t model_name of
        Inl e \<Rightarrow> (Inl e, t)
      | Inr (name, model) \<Rightarrow>
          (case (if is_hf_dataset X
                 then train_dataset w t model X transforms best_model_params
                        splits_mapping kwargs
                 else train_arrays w t model X y transforms best_model_params kwargs) of
             (Inl e, t1) \<Rightarrow> (Inl e, t1)
           | (Inr r, t1) \<Rightarrow>
               (Inr model, t1\<lparr>trained_models := trained_models t1 @ [name]\<rparr>)))"

definition load_pretrained_model ::
  "world \<Rightarrow> task \<Rightarrow> string \<Rightarrow> string option \<Rightarrow> pydict \<Rightarrow> (exn + wrapped_model) \<times> task" where
  "load_pretrained_model w t filepath model_name kwargs =
     (case get_model t model_name of
        Inl e \<Rightarrow> (Inl e, t)
      | Inr (name, model) \<Rightarrow>
          (case call_model w t (LoadModel model filepath kwargs) of
             (Inl e, t1) \<Rightarrow> (Inl e, t1)
           | (Inr r, t1) \<Rightarrow>
               (Inr model, t1\<lparr>pretrained_models := pretrained_models t1 @ [name]\<rparr>)))"

subsection \<open>Prediction\<close>

text \<open>Lines 380 to 385 of \<open>predict\<close>: the same fallback, with a warning.\<close>

definition predict_transform ::
  "world \<Rightarrow> task \<Rightarrow> column_transformer option \<Rightarrow> ndarray \<Rightarrow> (exn + ndarray) \<times> task" where
  "predict_transform w t transforms dataset =
     (case transforms of
        None \<Rightarrow> (Inr dataset, t)
      | Some tr \<Rightarrow>
          (case call_transform w t (Transform tr dataset) of
             (Inl e, t1) \<Rightarrow>
               if is_not_fitted e then
                 call_transform w
                   (logger WARNING ''Fitting preprocessor on evaluation dataset.'' t1)
                   (FitTransform tr dataset)
               else (Inl e, t1)
           | (Inr d1, t1) \<Rightarrow> (Inr d1, t1)))"

definition predict ::
  "world \<Rightarrow> task \<Rightarrow> data \<Rightarrow> string option \<Rightarrow> column_transformer option \<Rightarrow> bool
     \<Rightarrow> (string \<times> string) list \<Rightarrow> pydict \<Rightarrow> (exn + data) \<times> task" where
  "predict w t dataset model_name transforms proba splits_mapping kwargs =
     (case get_model t model_name of
        Inl e \<Rightarrow> (Inl e, t)
      | Inr (name, model) \<Rightarrow>
          if name \<notin> set (pretrained_models t @ trained_models t) then
            (Inl (NotFittedError not_fitted_msg), t)
          else if is_hf_dataset dataset then
            (if proba \<and> is_SKModel model then
               call_model w t
                 (PredictProba_dataset model dataset (task_features t) transforms name
                    splits_mapping kwargs)
             else
               call_model w t
                 (Predict_dataset model dataset (task_features t) transforms name
                    splits_mapping kwargs))
          else
            (case to_numpy w dataset of
               Inl e \<Rightarrow> (Inl e, t)
             | Inr d1 \<Rightarrow>
                 (case predict_transform w t transforms d1 of
                    (Inl e, t1) \<Rightarrow> (Inl e, t1)
                  | (Inr d2, t1) \<Rightarrow>
                      if proba \<and> is_SKModel model then
                        call_model w t1 (PredictProba_array model d2 kwargs)
                      else call_model w t1 (Predict_array model d2 kwargs))))"

subsection \<open>Evaluation\<close>

text \<open>The list comprehension of lines 441 to 446: the first failure ends it.\<close>

fun create_metrics :: "world \<Rightarrow> string list \<Rightarrow> string \<Rightarrow> nat \<Rightarrow> exn + string list" where
  "create_metrics w [] task n = Inr []"
| "create_metrics w (m # ms) task n =
     (case create_metric w m task n of
        Inl e \<Rightarrow> Inl e
      | Inr x \<Rightarrow>
          (case create_metrics w ms task n of
             Inl e \<Rightarrow> Inl e
           | Inr xs \<Rightarrow> Inr (x # xs)))"

text \<open>The argument \<open>model_names\<close>: absent, one name, or a list of names.\<close>

datatype names_arg = NoNames | OneName string | NameList "string list"

text \<open>
  The loop of lines 454 to 468. \<open>predict\<close> is called with its default
  \<open>proba=True\<close> and two keyword arguments of its own.
\<close>

fun predict_each ::
  "world \<Rightarrow> task \<Rightarrow> data \<Rightarrow> string list \<Rightarrow> column_transformer option \<Rightarrow> string
     \<Rightarrow> (string \<times> string) list \<Rightarrow> (exn + data) \<times> task" where
  "predict_each w t dataset [] transforms prefix splits_mapping = (Inr dataset, t)"
| "predict_each w t dataset (model_name # rest) transforms prefix splits_mapping =
     (case predict w
             (if model_name \<notin> set (pretrained_models t @ trained_models t)
              then logger WARNING not_fitted_warning t else t)
             dataset (Some model_name) transforms True splits_mapping
             [(''prediction_column_prefix'', PyStr prefix),
              (''only_predictions'', PyBool False)] of
        (Inl e, t1) \<Rightarrow> (Inl e, t1)
      | (Inr dataset1, t1) \<Rightarrow>
          predict_each w t1 dataset1 rest transforms prefix splits_mapping)"

definition evaluate ::
  "world \<Rightarrow> task \<Rightarrow> data \<Rightarrow> metrics_arg \<Rightarrow> names_arg \<Rightarrow> column_transformer option \<Rightarrow> string
     \<Rightarrow> (string \<times> string) list \<Rightarrow> nat option \<Rightarrow> nat \<Rightarrow> string list option
     \<Rightarrow> (exn + pydict \<times> data) \<times> task" where
  "evaluate w t dataset metrics model_names transforms prediction_column_prefix
     splits_mapping slice_spec batch_size remove_columns =
     (case (case metrics of
              MetricNames ms \<Rightarrow>
                if ms \<noteq> [] then
                  (case create_metrics w ms task_type (length (task_features t)) of
                     Inl e \<Rightarrow> Inl e
                   | Inr xs \<Rightarrow> Inr (MetricCollection xs))
                else Inr metrics
            | MetricCollection xs \<Rightarrow> Inr metrics) of
        Inl e \<Rightarrow> (Inl e, t)
      | Inr metrics1 \<Rightarrow>
          (case predict_each w t dataset
                  (case model_names of
                     OneName n \<Rightarrow> [n]
                   | NameList ns \<Rightarrow>
                       if ns = [] then pretrained_models t @ trained_models t else ns
                   | NoNames \<Rightarrow> pretrained_models t @ trained_models t)
                  transforms prediction_column_prefix splits_mapping of
             (Inl e, t1) \<Rightarrow> (Inl e, t1)
           | (Inr dataset1, t1) \<Rightarrow>
               (case call_engine w t1
                       (Evaluate dataset1 metrics1 (task_target t1) slice_spec
                          prediction_column_prefix batch_size remove_columns) of
                  (Inl e, t2) \<Rightarrow> (Inl e, t2)
                | (Inr results, t2) \<Rightarrow> (Inr (results, dataset1), t2))))"

subsection \<open>Example collaborators and tasks\<close>

text \<open>
  Collaborators that behave as the real ones do in the simplest case: a dict of
  handles is taken as it is, arrays and frames convert to arrays, a prediction on a
  dataset returns the dataset, and a transformer raises \<open>NotFittedError\<close> from
  \<open>transform\<close> until \<open>fit_transform\<close> has been called on it.
\<close>

definition demo_world :: world where
  "demo_world = \<lparr>
     prepare_models = (\<lambda>spec cfg. case spec of
         ModelName n \<Rightarrow> Inr [(n, SKModel 0)]
       | ModelObject m \<Rightarrow> Inr [(''model'', m)]
       | ModelDict d \<Rightarrow> Inr d),
     to_numpy = (\<lambda>d. case d of
         NdArray a \<Rightarrow> Inr a
       | DataFrame a \<Rightarrow> Inr a
       | Series a \<Rightarrow> Inr a
       | HFDataset cols \<Rightarrow> Inl (OtherError ''unsupported'')
       | HFDatasetDict splits \<Rightarrow> Inl (OtherError ''unsupported'')),
     create_metric = (\<lambda>m task n. Inr m),
     model_op = (\<lambda>history c. case c of
         PredictProba_dataset m d f tr n s k \<Rightarrow> Inr d
       | Predict_dataset m d f tr n s k \<Rightarrow> Inr d
       | PredictProba_array m X k \<Rightarrow> Inr (NdArray X)
       | Predict_array m X k \<Rightarrow> Inr (NdArray X)
       | _ \<Rightarrow> Inr (NdArray [])),
     transform_op = (\<lambda>history c. case c of
         Transform tr X \<Rightarrow>
           if list_ex (\<lambda>c'. case c' of FitTransform tr' X' \<Rightarrow> tr' = tr | _ \<Rightarrow> False)
                history
           then Inr X else Inl (NotFittedError ''not fitted'')
       | FitTransform tr X \<Rightarrow> Inr X
       | _ \<Rightarrow> Inl (OtherError ''not a transformer call'')),
     engine_op = (\<lambda>history c. Inr [(''accuracy'', PyInt 1)])
   \<rparr>"

text \<open>
  The same collaborators, except that no handle has probability estimates:
  \<open>predict_proba\<close> raises \<open>AttributeError\<close>, as an estimator without that method
  does, while the plain \<open>predict\<close> answers as before.
\<close>

definition hinge_world :: world where
  "hinge_world = demo_world
     \<lparr>model_op := (\<lambda>history c. case c of
         PredictProba_dataset m d f tr n s k \<Rightarrow> Inl (AttributeError ''predict_proba'')
       | PredictProba_array m X k \<Rightarrow> Inl (AttributeError ''predict_proba'')
       | Predict_dataset m d f tr n s k \<Rightarrow> Inr d
       | Predict_array m X k \<Rightarrow> Inr (NdArray X)
       | _ \<Rightarrow> Inr (NdArray []))\<rparr>"

text \<open>
  A task as \<open>__init__\<close> leaves it, with the default feature and target columns and
  the given registry.
\<close>

definition new_task :: "model_dict \<Rightarrow> task" where
  "new_task ms =
     \<lparr>models = ms,
      task_features = [''age'', ''sex'', ''admission_type'', ''admission_location''],
      task_target = [''outcome_death''],
      trained_models = [], pretrained_models = [],
      log = [], calls = []\<rparr>"

section \<open>Properties\<close>

subsection \<open>Resolving a model\<close>

lemma get_model_single:
  "models t = [(n, m)] \<Longrightarrow>
     get_model t name =
       (if truthy name \<and> name \<noteq> Some n
        then Inl (ValueError [Text (''The model '' @ str_of name
                @ '' does not exist. You can add the model using Task.add_model()'')])
        else Inr (n, m))"
  by (cases name) (auto simp: get_model_def models_count_def list_models_def getitem_def)

lemma get_model_ambiguous:
  "2 \<le> models_count t \<Longrightarrow> \<not> truthy name \<Longrightarrow>
     get_model t name =
       Inl (ValueError [Text ''Please specify a model from '', Names (list_models t)])"
  by (simp add: get_model_def)

lemma get_model_unknown:
  "truthy name \<Longrightarrow> str_of name \<notin> set (list_models t) \<Longrightarrow>
     get_model t name =
       Inl (ValueError [Text (''The model '' @ str_of name
              @ '' does not exist. You can add the model using Task.add_model()'')])"
  by (simp add: get_model_def)

lemma get_model_empty:
  "models t = [] \<Longrightarrow> \<not> truthy name \<Longrightarrow> get_model t name = Inl IndexError"
  by (simp add: get_model_def models_count_def list_models_def)

text \<open>
  Claim C3, as the code has it. With exactly one registered model, \<open>get_model\<close>
  returns that model when no name is given (\<open>None\<close> or the empty string) or when the
  name is the model's own; any other name raises the error that names
  \<open>Task.add_model()\<close> as the remedy. With two or more models and no name it raises
  the error that lists the registered names. A non-empty name that is not registered
  raises the \<open>add_model\<close> error, whatever the size of the registry.
\<close>

theorem get_model_resolution:
  "(models t = [(n, m)] \<longrightarrow>
      get_model t name =
        (if truthy name \<and> name \<noteq> Some n
         then Inl (ValueError [Text (''The model '' @ str_of name
                @ '' does not exist. You can add the model using Task.add_model()'')])
         else Inr (n, m)))
   \<and> (2 \<le> models_count t \<and> \<not> truthy name \<longrightarrow>
        get_model t name =
          Inl (ValueError [Text ''Please specify a model from '', Names (list_models t)]))
   \<and> (truthy name \<and> str_of name \<notin> set (list_models t) \<longrightarrow>
        get_model t name =
          Inl (ValueError [Text (''The model '' @ str_of name
                @ '' does not exist. You can add the model using Task.add_model()'')]))"
  using get_model_single get_model_ambiguous get_model_unknown by blast

theorem get_model_resolution_witness:
  "get_model (new_task [(''lr'', SKModel 5)]) None = Inr (''lr'', SKModel 5)
   \<and> get_model (new_task [(''lr'', SKModel 5)]) (Some '''') = Inr (''lr'', SKModel 5)
   \<and> get_model (new_task [(''lr'', SKModel 5)]) (Some ''lr'') = Inr (''lr'', SKModel 5)
   \<and> get_model (new_task [(''lr'', SKModel 5), (''xgb'', SKModel 2)]) None =
        Inl (ValueError [Text ''Please specify a model from '', Names [''lr'', ''xgb'']])
   \<and> get_model (new_task [(''lr'', SKModel 5), (''xgb'', SKModel 2)]) (Some ''rf'') =
        Inl (ValueError
          [Text ''The model rf does not exist. You can add the model using Task.add_model()''])"
  using get_model_resolution [of "new_task [(''lr'', SKModel 5)]" "''lr''" "SKModel 5" None]
    get_model_resolution [of "new_task [(''lr'', SKModel 5)]" "''lr''" "SKModel 5" "Some ''''"]
    get_model_resolution [of "new_task [(''lr'', SKModel 5)]" "''lr''" "SKModel 5" "Some ''lr''"]
    get_model_resolution [of "new_task [(''lr'', SKModel 5), (''xgb'', SKModel 2)]" _ _ None]
    get_model_resolution [of "new_task [(''lr'', SKModel 5), (''xgb'', SKModel 2)]" _ _
      "Some ''rf''"]
  by (simp add: new_task_def models_count_def list_models_def)

text \<open>
  The claim as the specification words it fails: on a registry that holds the single
  model \<open>lr\<close>, the unknown name \<open>xgb\<close> does not return \<open>lr\<close> but raises.
\<close>

theorem get_model_single_unknown_counterexample:
  "models (new_task [(''lr'', SKModel 5)]) = [(''lr'', SKModel 5)]
   \<and> get_model (new_task [(''lr'', SKModel 5)]) (Some ''xgb'') =
       Inl (ValueError
         [Text ''The model xgb does not exist. You can add the model using Task.add_model()''])"
  by (simp add: new_task_def get_model_def models_count_def list_models_def)

subsection \<open>Adding a model\<close>

lemma add_model_all_registered:
  "prepare_models w model cfg = Inr d \<Longrightarrow> set (map fst d) \<subseteq> set (list_models t) \<Longrightarrow>
     add_model w t model cfg =
       (Inr (),
        t\<lparr>log := log t
           @ [(ERROR, ''Failed to add the model. A model with same name already exists.'')]\<rparr>)"
  by (simp add: add_model_def logger_def)

lemma add_model_some_new:
  "prepare_models w model cfg = Inr d \<Longrightarrow> \<not> set (map fst d) \<subseteq> set (list_models t) \<Longrightarrow>
     models (snd (add_model w t model cfg)) = dict_update (models t) d"
  by (simp add: add_model_def logger_def)

text \<open>
  Claim C2, at an input where only one of the two supplied names is registered: the
  test of \<open>add_model\<close> is \<open>issubset\<close>, so the call goes to the branch that
  updates the registry. The handle stored under \<open>lr\<close> is replaced, \<open>xgb\<close> is
  added, and the log reports an addition rather than a failure.
\<close>

theorem add_model_partial_collision:
  "add_model demo_world (new_task [(''lr'', SKModel 5)])
     (ModelDict [(''lr'', SKModel 2), (''xgb'', SKModel 3)]) None =
   (Inr (), (new_task [(''lr'', SKModel 2), (''xgb'', SKModel 3)])
              \<lparr>log := [(INFO, ''lr, xgb is added to task models.'')]\<rparr>)"
  by (simp add: add_model_def demo_world_def new_task_def list_models_def dict_update_def
      logger_def)

subsection \<open>Resolution failures end a method before it does anything\<close>

lemma get_model_known:
  "n \<noteq> [] \<Longrightarrow> n \<in> set (list_models t) \<Longrightarrow> \<exists>m. get_model t (Some n) = Inr (n, m)"
proof -
  assume n: "n \<noteq> []" and mem: "n \<in> set (list_models t)"
  from mem have "map_of (models t) n \<noteq> None"
    by (simp add: list_models_def map_of_eq_None_iff)
  then obtain m where "map_of (models t) n = Some m" by blast
  with n mem show ?thesis by (simp add: get_model_def getitem_def)
qed

lemma train_unresolved:
  "get_model t name = Inl e \<Longrightarrow> train w t X y name tr p s k = (Inl e, t)"
  by (simp add: train_def)

lemma load_unresolved:
  "get_model t name = Inl e \<Longrightarrow> load_pretrained_model w t f name k = (Inl e, t)"
  by (simp add: load_pretrained_model_def)

lemma predict_unresolved:
  "get_model t name = Inl e \<Longrightarrow> predict w t d name tr proba s k = (Inl e, t)"
  by (simp add: predict_def)

text \<open>
  Claim C10. On an empty registry, \<open>get_model\<close> without a name (\<open>None\<close>, or the
  empty string, which is as false) reaches \<open>self.list_models()[0]\<close> and raises
  \<open>IndexError\<close>, which is not one of the two \<open>ValueError\<close>s of its docstring.
  \<open>train\<close>, \<open>load_pretrained_model\<close> and \<open>predict\<close> resolve the model first, so
  each raises the same \<open>IndexError\<close> and leaves the task as it was.
\<close>

theorem empty_registry_index_error:
  "models t = [] \<and> \<not> truthy name \<longrightarrow>
     get_model t name = Inl IndexError
     \<and> (\<forall>msg. get_model t name \<noteq> Inl (ValueError msg))
     \<and> train w t X y name tr p s k = (Inl IndexError, t)
     \<and> load_pretrained_model w t f name k' = (Inl IndexError, t)
     \<and> predict w t d name tr' proba s' k'' = (Inl IndexError, t)"
  by (simp add: get_model_empty train_unresolved load_unresolved predict_unresolved)

theorem empty_registry_index_error_witness:
  "get_model (new_task []) None = Inl IndexError
   \<and> train demo_world (new_task []) (NdArray [[1, 2], [3, 4]]) (Some (NdArray [[0], [1]]))
        None None None [] [] = (Inl IndexError, new_task [])
   \<and> load_pretrained_model demo_world (new_task []) ''model.pkl'' None [] =
        (Inl IndexError, new_task [])
   \<and> predict demo_world (new_task []) (NdArray [[1, 2]]) None None True [] [] =
        (Inl IndexError, new_task [])"
  using empty_registry_index_error [of "new_task []" None demo_world
      "NdArray [[1, 2], [3, 4]]" "Some (NdArray [[0], [1]])" None None "[]" "[]"
      "''model.pkl''" "[]" "NdArray [[1, 2]]" None True "[]" "[]"]
  by (simp add: new_task_def)

subsection \<open>Training on arrays\<close>

lemma train_missing_labels:
  "\<not> is_hf_dataset X \<Longrightarrow> get_model t name = Inr (n, m) \<Longrightarrow>
     train w t X None name tr p s k = (Inl (ValueError [Text missing_labels_msg]), t)"
  by (simp add: train_def train_arrays_def)

text \<open>
  Claim C9. A \<open>train\<close> call on an array or a data frame with \<open>y=None\<close> always
  raises and leaves the task as it was: no call is made on the model or on the
  transformer, and the list of trained names does not grow. Once the model is
  resolved, the exception is the \<open>ValueError\<close> whose text begins
  \<open>Missing data labels 'y'\<close>; when the model cannot be resolved, \<open>get_model\<close> has
  raised before the labels are looked at.
\<close>

theorem train_without_labels:
  "\<not> is_hf_dataset X \<longrightarrow>
     (\<exists>e. train w t X None name tr p s k = (Inl e, t))
     \<and> (\<forall>n m. get_model t name = Inr (n, m) \<longrightarrow>
          train w t X None name tr p s k = (Inl (ValueError [Text missing_labels_msg]), t))"
proof (cases "get_model t name")
  case (Inl e)
  then show ?thesis by (simp add: train_unresolved)
next
  case (Inr nm)
  then show ?thesis by (cases nm) (simp add: train_missing_labels)
qed

theorem train_without_labels_witness:
  "train demo_world (new_task [(''lr'', SKModel 5)]) (NdArray [[1, 2], [3, 4]]) None None None
     None [] [] =
   (Inl (ValueError [Text missing_labels_msg]), new_task [(''lr'', SKModel 5)])
   \<and> trained_models (new_task [(''lr'', SKModel 5)]) = []
   \<and> calls (new_task [(''lr'', SKModel 5)]) = []"
proof -
  have g: "get_model (new_task [(''lr'', SKModel 5)]) None = Inr (''lr'', SKModel 5)"
    by (simp add: get_model_single new_task_def)
  show ?thesis
    using train_without_labels [of "NdArray [[1, 2], [3, 4]]" demo_world
        "new_task [(''lr'', SKModel 5)]" None None None "[]" "[]"] g
    by (simp add: new_task_def)
qed

lemma train_transform_calls:
  "train_transform w t tr X = (r, t1) \<Longrightarrow>
     \<exists>cs. t1 = t\<lparr>calls := calls t @ cs\<rparr> \<and> list_all (\<lambda>c. \<not> is_fit_call c) cs"
proof (cases tr)
  case None
  assume "train_transform w t tr X = (r, t1)"
  with None have "t1 = t\<lparr>calls := calls t @ []\<rparr>" by (simp add: train_transform_def)
  then show ?thesis by (intro exI [of _ "[]"]) simp
next
  case (Some c)
  assume a: "train_transform w t tr X = (r, t1)"
  show ?thesis
  proof (cases "transform_op w (calls t) (Transform c X)")
    case (Inr X1)
    with a Some have "t1 = t\<lparr>calls := calls t @ [Transform c X]\<rparr>"
      by (simp add: train_transform_def call_transform_def)
    then show ?thesis by (intro exI [of _ "[Transform c X]"]) simp
  next
    case (Inl e)
    show ?thesis
    proof (cases "is_not_fitted e")
      case True
      with a Some Inl have "t1 = t\<lparr>calls := calls t @ [Transform c X, FitTransform c X]\<rparr>"
        by (simp add: train_transform_def call_transform_def)
      then show ?thesis by (intro exI [of _ "[Transform c X, FitTransform c X]"]) simp
    next
      case False
      with a Some Inl have "t1 = t\<lparr>calls := calls t @ [Transform c X]\<rparr>"
        by (simp add: train_transform_def call_transform_def)
      then show ?thesis by (intro exI [of _ "[Transform c X]"]) simp
    qed
  qed
qed

lemma train_arrays_mismatch:
  "to_numpy w X = Inr X1 \<Longrightarrow> train_transform w t tr X1 = (Inr X2, t1) \<Longrightarrow>
   to_numpy w y0 = Inr y1 \<Longrightarrow> length X2 \<noteq> length y1 \<Longrightarrow>
     train_arrays w t m X (Some y0) tr p k = (Inl AssertionError, t1)"
  by (simp add: train_arrays_def)

text \<open>
  Claim C6. \<open>train\<close> on an array or a data frame, with labels: when the features
  convert to \<open>X1\<close>, the transform step turns them into \<open>X2\<close>, the labels convert to
  \<open>y1\<close>, and \<open>len(X2)\<close> differs from \<open>len(y1)\<close>, the assertion of line 268 fails:
  \<open>train\<close> raises \<open>AssertionError\<close>. The only calls it has made by then are those
  of the transform step, none of them a \<open>fit\<close> or a \<open>find_best\<close>.
\<close>

theorem train_length_mismatch:
  "\<not> is_hf_dataset X \<and> get_model t name = Inr (n, m) \<and> to_numpy w X = Inr X1
   \<and> train_transform w t tr X1 = (Inr X2, t1) \<and> to_numpy w y0 = Inr y1
   \<and> length X2 \<noteq> length y1 \<longrightarrow>
     train w t X (Some y0) name tr p s k = (Inl AssertionError, t1)
     \<and> (\<exists>cs. t1 = t\<lparr>calls := calls t @ cs\<rparr> \<and> list_all (\<lambda>c. \<not> is_fit_call c) cs)"
  using train_transform_calls [of w t tr X1 "Inr X2" t1]
  by (simp add: train_def train_arrays_mismatch)

theorem train_length_mismatch_witness:
  "train demo_world (new_task [(''lr'', SKModel 5)]) (NdArray [[1, 2], [3, 4], [5, 6]])
     (Some (NdArray [[0], [1]])) None (Some (ColumnTransformer 7)) None [] [] =
   (Inl AssertionError,
    (new_task [(''lr'', SKModel 5)])
      \<lparr>calls := [Transform (ColumnTransformer 7) [[1, 2], [3, 4], [5, 6]],
                  FitTransform (ColumnTransformer 7) [[1, 2], [3, 4], [5, 6]]]\<rparr>)"
proof -
  have g: "get_model (new_task [(''lr'', SKModel 5)]) None = Inr (''lr'', SKModel 5)"
    by (simp add: get_model_single new_task_def)
  have tt: "train_transform demo_world (new_task [(''lr'', SKModel 5)])
      (Some (ColumnTransformer 7)) [[1, 2], [3, 4], [5, 6]] =
    (Inr [[1, 2], [3, 4], [5, 6]], (new_task [(''lr'', SKModel 5)])
      \<lparr>calls := [Transform (ColumnTransformer 7) [[1, 2], [3, 4], [5, 6]],
                  FitTransform (ColumnTransformer 7) [[1, 2], [3, 4], [5, 6]]]\<rparr>)"
    by (simp add: train_transform_def call_transform_def demo_world_def new_task_def)
  show ?thesis
    using train_length_mismatch [of "NdArray [[1, 2], [3, 4], [5, 6]]"
        "new_task [(''lr'', SKModel 5)]" None "''lr''" "SKModel 5" demo_world
        "[[1, 2], [3, 4], [5, 6]]" "Some (ColumnTransformer 7)" "[[1, 2], [3, 4], [5, 6]]"
        "(new_task [(''lr'', SKModel 5)])
          \<lparr>calls := [Transform (ColumnTransformer 7) [[1, 2], [3, 4], [5, 6]],
                      FitTransform (ColumnTransformer 7) [[1, 2], [3, 4], [5, 6]]]\<rparr>"
        "NdArray [[0], [1]]" "[[0], [1]]" None "[]" "[]"] g tt
    by (simp add: demo_world_def)
qed

subsection \<open>Which models may predict\<close>

text \<open>
  Claim C4. When \<open>train\<close> returns a handle, the handle is the one \<open>get_model\<close>
  resolved and the resolved name is in \<open>trained_models\<close> afterwards; the same holds
  of \<open>load_pretrained_model\<close> and \<open>pretrained_models\<close>. \<open>predict\<close> on a resolved
  name that is in neither list raises \<open>NotFittedError\<close> and leaves the task as it
  was, so no call has been made on the model.
\<close>

theorem fit_state_bookkeeping:
  "(train w t X y name tr p s k = (Inr m, t1) \<longrightarrow>
      (\<exists>n. get_model t name = Inr (n, m) \<and> n \<in> set (trained_models t1)))
   \<and> (load_pretrained_model w t f name k = (Inr m, t2) \<longrightarrow>
      (\<exists>n. get_model t name = Inr (n, m) \<and> n \<in> set (pretrained_models t2)))
   \<and> (get_model t name = Inr (n, m)
        \<and> n \<notin> set (pretrained_models t) \<and> n \<notin> set (trained_models t) \<longrightarrow>
      predict w t d name tr proba s k = (Inl (NotFittedError not_fitted_msg), t))"
  by (auto simp: train_def load_pretrained_model_def predict_def
      split: sum.splits prod.splits if_splits)

theorem fit_state_bookkeeping_witness:
  "train demo_world (new_task [(''lr'', SKModel 5)]) (NdArray [[1, 2], [3, 4]])
     (Some (NdArray [[0], [1]])) None None None [] [] =
     (Inr (SKModel 5),
      (new_task [(''lr'', SKModel 5)])
        \<lparr>trained_models := [''lr''],
         calls := [Fit_arrays (SKModel 5) [[1, 2], [3, 4]] [[0], [1]] []]\<rparr>)
   \<and> load_pretrained_model demo_world (new_task [(''lr'', SKModel 5)]) ''model.pkl'' None [] =
     (Inr (SKModel 5),
      (new_task [(''lr'', SKModel 5)])
        \<lparr>pretrained_models := [''lr''],
         calls := [LoadModel (SKModel 5) ''model.pkl'' []]\<rparr>)
   \<and> (\<exists>n. get_model (new_task [(''lr'', SKModel 5)]) None = Inr (n, SKModel 5)
          \<and> n \<in> set (trained_models ((new_task [(''lr'', SKModel 5)])
                \<lparr>trained_models := [''lr''],
                 calls := [Fit_arrays (SKModel 5) [[1, 2], [3, 4]] [[0], [1]] []]\<rparr>)))
   \<and> (\<exists>n. get_model (new_task [(''lr'', SKModel 5)]) None = Inr (n, SKModel 5)
          \<and> n \<in> set (pretrained_models ((new_task [(''lr'', SKModel 5)])
                \<lparr>pretrained_models := [''lr''],
                 calls := [LoadModel (SKModel 5) ''model.pkl'' []]\<rparr>)))
   \<and> predict demo_world (new_task [(''lr'', SKModel 5)]) (NdArray [[1, 2]]) None None True
        [] [] = (Inl (NotFittedError not_fitted_msg), new_task [(''lr'', SKModel 5)])"
proof -
  let ?t = "new_task [(''lr'', SKModel 5)]"
  have g: "get_model ?t None = Inr (''lr'', SKModel 5)"
    by (simp add: get_model_single new_task_def)
  have tr: "train demo_world ?t (NdArray [[1, 2], [3, 4]])
     (Some (NdArray [[0], [1]])) None None None [] [] =
     (Inr (SKModel 5),
      ?t\<lparr>trained_models := [''lr''],
         calls := [Fit_arrays (SKModel 5) [[1, 2], [3, 4]] [[0], [1]] []]\<rparr>)"
    by (simp add: train_def g train_arrays_def train_transform_def call_model_def
        demo_world_def) (simp add: new_task_def)
  have ld: "load_pretrained_model demo_world ?t ''model.pkl'' None [] =
     (Inr (SKModel 5),
      ?t\<lparr>pretrained_models := [''lr''],
         calls := [LoadModel (SKModel 5) ''model.pkl'' []]\<rparr>)"
    by (simp add: load_pretrained_model_def g call_model_def demo_world_def)
       (simp add: new_task_def)
  have nf: "''lr'' \<notin> set (pretrained_models ?t) \<and> ''lr'' \<notin> set (trained_models ?t)"
    by (simp add: new_task_def)
  show ?thesis
    using fit_state_bookkeeping [of demo_world ?t "NdArray [[1, 2], [3, 4]]"
        "Some (NdArray [[0], [1]])" None None None "[]" "[]" "SKModel 5"
        "?t\<lparr>trained_models := [''lr''],
           calls := [Fit_arrays (SKModel 5) [[1, 2], [3, 4]] [[0], [1]] []]\<rparr>"
        "''model.pkl''"
        "?t\<lparr>pretrained_models := [''lr''],
           calls := [LoadModel (SKModel 5) ''model.pkl'' []]\<rparr>"
        "''lr''" "NdArray [[1, 2]]" True]
      g tr ld nf
    by simp
qed

subsection \<open>Prediction and evaluation of a model that is not fitted\<close>

lemma predict_frame:
  "predict w t d name tr proba s k = (r, t1) \<Longrightarrow>
     models t1 = models t \<and> trained_models t1 = trained_models t
     \<and> pretrained_models t1 = pretrained_models t"
  by (auto simp: predict_def predict_transform_def call_model_def call_transform_def
      logger_def split: sum.splits prod.splits if_splits option.splits)

lemma predict_unfitted_name:
  "n \<noteq> [] \<Longrightarrow> n \<notin> set (pretrained_models t @ trained_models t) \<Longrightarrow>
     predict w t d (Some n) tr proba s k =
       (Inl (if n \<in> set (list_models t) then NotFittedError not_fitted_msg
             else ValueError [Text (''The model '' @ n
                    @ '' does not exist. You can add the model using Task.add_model()'')]),
        t)"
proof (cases "n \<in> set (list_models t)")
  case True
  assume n: "n \<noteq> []" and nf: "n \<notin> set (pretrained_models t @ trained_models t)"
  from get_model_known [OF n True] obtain m where "get_model t (Some n) = Inr (n, m)" ..
  with nf True show ?thesis by (simp add: predict_def)
next
  case False
  assume n: "n \<noteq> []"
  with False have "get_model t (Some n) = Inl (ValueError [Text (''The model '' @ n
                    @ '' does not exist. You can add the model using Task.add_model()'')])"
    using get_model_unknown [of "Some n" t] by simp
  with False show ?thesis by (simp add: predict_unresolved)
qed

lemma predict_each_unfitted:
  "n \<in> set names \<Longrightarrow> n \<noteq> [] \<Longrightarrow> n \<notin> set (pretrained_models t @ trained_models t) \<Longrightarrow>
     isl (fst (predict_each w t d names tr pre s))"
proof (induction names arbitrary: t d)
  case Nil
  then show ?case by simp
next
  case (Cons a names)
  let ?t0 = "if a \<notin> set (pretrained_models t @ trained_models t)
             then logger WARNING not_fitted_warning t else t"
  let ?k = "[(''prediction_column_prefix'', PyStr pre), (''only_predictions'', PyBool False)]"
  have fit0: "pretrained_models ?t0 = pretrained_models t
      \<and> trained_models ?t0 = trained_models t"
    by (simp add: logger_def)
  obtain r t1 where p: "predict w ?t0 d (Some a) tr True s ?k = (r, t1)"
    by (cases "predict w ?t0 d (Some a) tr True s ?k") blast
  show ?case
  proof (cases r)
    case (Inl e)
    with p show ?thesis by simp
  next
    case (Inr d1)
    have "a \<noteq> n"
    proof
      assume "a = n"
      with Cons.prems fit0 have "predict w ?t0 d (Some a) tr True s ?k =
        (Inl (if n \<in> set (list_models ?t0) then NotFittedError not_fitted_msg
             else ValueError [Text (''The model '' @ n
                    @ '' does not exist. You can add the model using Task.add_model()'')]),
         ?t0)"
        using predict_unfitted_name [of n ?t0 w d tr True s ?k] by simp
      with p Inr show False by (simp split: if_splits)
    qed
    with Cons.prems have mem: "n \<in> set names" by simp
    from predict_frame [OF p] fit0
    have "n \<notin> set (pretrained_models t1 @ trained_models t1)"
      using Cons.prems by simp
    from Cons.IH [OF mem Cons.prems(2) this]
    have "isl (fst (predict_each w t1 d1 names tr pre s))" .
    with p Inr show ?thesis by simp
  qed
qed

lemma predict_each_head_unfitted:
  "n \<noteq> [] \<Longrightarrow> n \<notin> set (pretrained_models t @ trained_models t) \<Longrightarrow>
     predict_each w t d (n # rest) tr pre s =
       (Inl (if n \<in> set (list_models t) then NotFittedError not_fitted_msg
             else ValueError [Text (''The model '' @ n
                    @ '' does not exist. You can add the model using Task.add_model()'')]),
        logger WARNING not_fitted_warning t)"
  using predict_unfitted_name [of n "logger WARNING not_fitted_warning t" w d tr True s
      "[(''prediction_column_prefix'', PyStr pre), (''only_predictions'', PyBool False)]"]
  by (simp add: logger_def list_models_def)

lemma evaluate_raises_if_loop_raises:
  "isl (fst (predict_each w t d
      (case model_names of
         OneName n \<Rightarrow> [n]
       | NameList ns \<Rightarrow> if ns = [] then pretrained_models t @ trained_models t else ns
       | NoNames \<Rightarrow> pretrained_models t @ trained_models t) tr pre s)) \<Longrightarrow>
   isl (fst (evaluate w t d metrics model_names tr pre s sl b rc))"
  by (auto simp: evaluate_def split: sum.splits prod.splits metrics_arg.splits)

lemma evaluate_never_completes:
  "n \<noteq> [] \<Longrightarrow> n \<notin> set (pretrained_models t @ trained_models t) \<Longrightarrow>
   model_names = OneName n \<or> (model_names = NameList names \<and> n \<in> set names) \<Longrightarrow>
     isl (fst (evaluate w t d metrics model_names tr pre s sl b rc))"
proof -
  assume n: "n \<noteq> []" and nf: "n \<notin> set (pretrained_models t @ trained_models t)"
    and arg: "model_names = OneName n \<or> (model_names = NameList names \<and> n \<in> set names)"
  from arg show ?thesis
  proof
    assume "model_names = OneName n"
    then show ?thesis
      using predict_each_unfitted [of n "[n]" t w d tr pre s] n nf
      by (intro evaluate_raises_if_loop_raises) simp
  next
    assume a: "model_names = NameList names \<and> n \<in> set names"
    then have "names \<noteq> []" by auto
    with a show ?thesis
      using predict_each_unfitted [of n names t w d tr pre s] n nf
      by (intro evaluate_raises_if_loop_raises) simp
  qed
qed

text \<open>
  Claim C1, at the input where \<open>lr\<close> is registered but neither trained nor loaded.
  \<open>evaluate\<close> on \<open>lr\<close> logs its warning and goes on to call \<open>predict\<close>, as if to
  proceed; the guard of \<open>predict\<close> then raises \<open>NotFittedError\<close>, nothing in
  \<open>evaluate\<close> catches it, and \<open>evaluate\<close> raises: it does not run to completion,
  and the evaluation engine is never called. \<open>predict\<close> called directly on \<open>lr\<close>
  raises the same \<open>NotFittedError\<close>, as the claim says.
\<close>

theorem evaluate_unfitted_raises:
  "''lr'' \<notin> set (trained_models (new_task [(''lr'', SKModel 5)]))
   \<and> ''lr'' \<notin> set (pretrained_models (new_task [(''lr'', SKModel 5)]))
   \<and> evaluate demo_world (new_task [(''lr'', SKModel 5)])
        (HFDataset [''age'', ''outcome_death'']) (MetricNames [''accuracy''])
        (OneName ''lr'') None ''predictions'' [(''test'', ''test'')] None 1000 None =
     (Inl (NotFittedError not_fitted_msg),
      (new_task [(''lr'', SKModel 5)])\<lparr>log := [(WARNING, not_fitted_warning)]\<rparr>)
   \<and> predict demo_world (new_task [(''lr'', SKModel 5)])
        (HFDataset [''age'', ''outcome_death'']) (Some ''lr'') None True
        [(''test'', ''test'')] [] =
     (Inl (NotFittedError not_fitted_msg), new_task [(''lr'', SKModel 5)])"
  by (simp add: evaluate_def demo_world_def task_type_def new_task_def predict_def
      get_model_def models_count_def list_models_def getitem_def logger_def)

subsection \<open>Probabilities by the kind of the handle\<close>

text \<open>
  Claim C5, as the code has it. For a resolved model that is trained or loaded,
  \<open>predict\<close> with \<open>proba=True\<close> makes exactly one call on the handle and returns,
  or raises, whatever that call does. The call is \<open>predict_proba\<close> when the handle
  is an \<open>SKModel\<close> and the plain \<open>predict\<close> when it is not: the test is
  \<open>isinstance(model, SKModel)\<close>, not whether the handle can predict probabilities,
  and nothing is tried after \<open>predict_proba\<close> has raised. On a Hugging Face dataset
  that call is all \<open>predict\<close> does; on an array or a data frame it comes after the
  conversion and the transform step, and the choice is made the same way.
\<close>

theorem predict_proba_dispatch:
  "get_model t name = Inr (n, m) \<and> n \<in> set (pretrained_models t @ trained_models t) \<longrightarrow>
     (is_hf_dataset d \<longrightarrow>
        (is_SKModel m \<longrightarrow>
           predict w t d name tr True s k =
             (model_op w (calls t) (PredictProba_dataset m d (task_features t) tr n s k),
              t\<lparr>calls := calls t @ [PredictProba_dataset m d (task_features t) tr n s k]\<rparr>))
        \<and> (\<not> is_SKModel m \<longrightarrow>
           predict w t d name tr True s k =
             (model_op w (calls t) (Predict_dataset m d (task_features t) tr n s k),
              t\<lparr>calls := calls t @ [Predict_dataset m d (task_features t) tr n s k]\<rparr>)))
     \<and> (\<not> is_hf_dataset d \<and> to_numpy w d = Inr d1
          \<and> predict_transform w t tr d1 = (Inr d2, t1) \<longrightarrow>
        (is_SKModel m \<longrightarrow>
           predict w t d name tr True s k =
             (model_op w (calls t1) (PredictProba_array m d2 k),
              t1\<lparr>calls := calls t1 @ [PredictProba_array m d2 k]\<rparr>))
        \<and> (\<not> is_SKModel m \<longrightarrow>
           predict w t d name tr True s k =
             (model_op w (calls t1) (Predict_array m d2 k),
              t1\<lparr>calls := calls t1 @ [Predict_array m d2 k]\<rparr>)))"
  by (simp add: predict_def call_model_def)

theorem predict_proba_dispatch_witness:
  "predict demo_world
     ((new_task [(''lr'', SKModel 5), (''net'', PTModel 6)])
        \<lparr>trained_models := [''lr''], pretrained_models := [''net'']\<rparr>)
     (HFDataset [''age'']) (Some ''lr'') None True [(''test'', ''test'')] [] =
     (Inr (HFDataset [''age'']),
      (new_task [(''lr'', SKModel 5), (''net'', PTModel 6)])
        \<lparr>trained_models := [''lr''], pretrained_models := [''net''],
         calls := [PredictProba_dataset (SKModel 5) (HFDataset [''age''])
                     [''age'', ''sex'', ''admission_type'', ''admission_location'']
                     None ''lr'' [(''test'', ''test'')] []]\<rparr>)
   \<and> predict demo_world
     ((new_task [(''lr'', SKModel 5), (''net'', PTModel 6)])
        \<lparr>trained_models := [''lr''], pretrained_models := [''net'']\<rparr>)
     (HFDataset [''age'']) (Some ''net'') None True [(''test'', ''test'')] [] =
     (Inr (HFDataset [''age'']),
      (new_task [(''lr'', SKModel 5), (''net'', PTModel 6)])
        \<lparr>trained_models := [''lr''], pretrained_models := [''net''],
         calls := [Predict_dataset (PTModel 6) (HFDataset [''age''])
                     [''age'', ''sex'', ''admission_type'', ''admission_location'']
                     None ''net'' [(''test'', ''test'')] []]\<rparr>)
   \<and> predict demo_world
     ((new_task [(''lr'', SKModel 5), (''net'', PTModel 6)])
        \<lparr>trained_models := [''lr''], pretrained_models := [''net'']\<rparr>)
     (NdArray [[1, 2]]) (Some ''lr'') None True [(''test'', ''test'')] [] =
     (Inr (NdArray [[1, 2]]),
      (new_task [(''lr'', SKModel 5), (''net'', PTModel 6)])
        \<lparr>trained_models := [''lr''], pretrained_models := [''net''],
         calls := [PredictProba_array (SKModel 5) [[1, 2]] []]\<rparr>)
   \<and> predict demo_world
     ((new_task [(''lr'', SKModel 5), (''net'', PTModel 6)])
        \<lparr>trained_models := [''lr''], pretrained_models := [''net'']\<rparr>)
     (NdArray [[1, 2]]) (Some ''net'') None True [(''test'', ''test'')] [] =
     (Inr (NdArray [[1, 2]]),
      (new_task [(''lr'', SKModel 5), (''net'', PTModel 6)])
        \<lparr>trained_models := [''lr''], pretrained_models := [''net''],
         calls := [Predict_array (PTModel 6) [[1, 2]] []]\<rparr>)"
proof -
  let ?t = "(new_task [(''lr'', SKModel 5), (''net'', PTModel 6)])
        \<lparr>trained_models := [''lr''], pretrained_models := [''net'']\<rparr>"
  let ?s = "[(''test'', ''test'')]"
  have g1: "get_model ?t (Some ''lr'') = Inr (''lr'', SKModel 5)"
    by (simp add: get_model_def models_count_def list_models_def getitem_def new_task_def)
  have g2: "get_model ?t (Some ''net'') = Inr (''net'', PTModel 6)"
    by (simp add: get_model_def models_count_def list_models_def getitem_def new_task_def)
  have f: "''lr'' \<in> set (pretrained_models ?t @ trained_models ?t)
      \<and> ''net'' \<in> set (pretrained_models ?t @ trained_models ?t)"
    by (simp add: new_task_def)
  have x: "to_numpy demo_world (NdArray [[1, 2]]) = Inr [[1, 2]]"
    by (simp add: demo_world_def)
  have pt: "predict_transform demo_world ?t None [[1, 2]] = (Inr [[1, 2]], ?t)"
    by (simp add: predict_transform_def)
  have c1: "predict demo_world ?t (HFDataset [''age'']) (Some ''lr'') None True ?s [] =
      call_model demo_world ?t
        (PredictProba_dataset (SKModel 5) (HFDataset [''age'']) (task_features ?t) None ''lr''
           ?s [])"
    using predict_proba_dispatch [where t = ?t and name = "Some ''lr''" and n = "''lr''"
        and m = "SKModel 5" and d = "HFDataset [''age'']" and w = demo_world and tr = None
        and s = ?s and k = "[]"] g1 f
    by (simp add: call_model_def)
  have c2: "predict demo_world ?t (HFDataset [''age'']) (Some ''net'') None True ?s [] =
      call_model demo_world ?t
        (Predict_dataset (PTModel 6) (HFDataset [''age'']) (task_features ?t) None ''net''
           ?s [])"
    using predict_proba_dispatch [where t = ?t and name = "Some ''net''" and n = "''net''"
        and m = "PTModel 6" and d = "HFDataset [''age'']" and w = demo_world and tr = None
        and s = ?s and k = "[]"] g2 f
    by (simp add: call_model_def)
  have c3: "predict demo_world ?t (NdArray [[1, 2]]) (Some ''lr'') None True ?s [] =
      call_model demo_world ?t (PredictProba_array (SKModel 5) [[1, 2]] [])"
    using predict_proba_dispatch [where t = ?t and name = "Some ''lr''" and n = "''lr''"
        and m = "SKModel 5" and d = "NdArray [[1, 2]]" and w = demo_world and tr = None
        and s = ?s and k = "[]" and ?d1.0 = "[[1, 2]]" and ?d2.0 = "[[1, 2]]" and ?t1.0 = ?t]
      g1 f x pt
    by (simp add: call_model_def)
  have c4: "predict demo_world ?t (NdArray [[1, 2]]) (Some ''net'') None True ?s [] =
      call_model demo_world ?t (Predict_array (PTModel 6) [[1, 2]] [])"
    using predict_proba_dispatch [where t = ?t and name = "Some ''net''" and n = "''net''"
        and m = "PTModel 6" and d = "NdArray [[1, 2]]" and w = demo_world and tr = None
        and s = ?s and k = "[]" and ?d1.0 = "[[1, 2]]" and ?d2.0 = "[[1, 2]]" and ?t1.0 = ?t]
      g2 f x pt
    by (simp add: call_model_def)
  show ?thesis
    unfolding c1 c2 c3 c4
    by (simp add: call_model_def demo_world_def new_task_def)
qed

text \<open>
  The claim as the specification words it fails: it promises the plain \<open>predict\<close>
  for a handle that cannot predict probabilities. Take an \<open>SKModel\<close> whose
  \<open>predict_proba\<close> raises \<open>AttributeError\<close> (a linear classifier with hinge loss
  has no probability estimates) and whose plain \<open>predict\<close> would have answered.
  \<open>predict\<close> calls \<open>predict_proba\<close>, because the handle is an \<open>SKModel\<close>, and
  raises the \<open>AttributeError\<close>; the plain \<open>predict\<close> is never called.
\<close>

theorem predict_proba_no_fallback_counterexample:
  "model_op hinge_world [] (PredictProba_array (SKModel 5) [[1, 2]] []) =
     Inl (AttributeError ''predict_proba'')
   \<and> model_op hinge_world [PredictProba_array (SKModel 5) [[1, 2]] []]
        (Predict_array (SKModel 5) [[1, 2]] []) = Inr (NdArray [[1, 2]])
   \<and> predict hinge_world ((new_task [(''sgd'', SKModel 5)])\<lparr>trained_models := [''sgd'']\<rparr>)
        (NdArray [[1, 2]]) None None True [(''test'', ''test'')] [] =
     (Inl (AttributeError ''predict_proba''),
      (new_task [(''sgd'', SKModel 5)])
        \<lparr>trained_models := [''sgd''],
         calls := [PredictProba_array (SKModel 5) [[1, 2]] []]\<rparr>)"
  by (simp add: hinge_world_def demo_world_def new_task_def predict_def predict_transform_def
      call_model_def get_model_def models_count_def list_models_def getitem_def)

subsection \<open>A transformer that is not fitted\<close>

lemma train_transform_log: "train_transform w t tr X = (r, t1) \<Longrightarrow> log t1 = log t"
proof -
  assume e: "train_transform w t tr X = (r, t1)"
  from train_transform_calls [OF e] obtain cs where "t1 = t\<lparr>calls := calls t @ cs\<rparr>"
    by blast
  then show ?thesis by simp
qed

lemma train_dataset_log: "train_dataset w t m X tr p s k = (r, t1) \<Longrightarrow> log t1 = log t"
  by (auto simp: train_dataset_def call_model_def Let_def split: if_splits)

lemma train_arrays_log: "train_arrays w t m X y tr p k = (r, t1) \<Longrightarrow> log t1 = log t"
  by (auto simp: train_arrays_def call_model_def Let_def dest: train_transform_log
      split: option.splits sum.splits prod.splits if_splits)

lemma train_never_logs: "log (snd (train w t X y name tr p s k)) = log t"
  by (auto simp: train_def dest: train_dataset_log train_arrays_log
      split: sum.splits prod.splits if_splits)

lemma train_transform_fallback:
  "transform_op w (calls t) (Transform c X1) = Inl e \<Longrightarrow> is_not_fitted e \<Longrightarrow>
     train_transform w t (Some c) X1 =
       (transform_op w (calls t @ [Transform c X1]) (FitTransform c X1),
        t\<lparr>calls := calls t @ [Transform c X1, FitTransform c X1]\<rparr>)"
  by (simp add: train_transform_def call_transform_def)

lemma predict_transform_fallback:
  "transform_op w (calls t) (Transform c X1) = Inl e \<Longrightarrow> is_not_fitted e \<Longrightarrow>
     predict_transform w t (Some c) X1 =
       (transform_op w (calls t @ [Transform c X1]) (FitTransform c X1),
        t\<lparr>calls := calls t @ [Transform c X1, FitTransform c X1],
          log := log t @ [(WARNING, ''Fitting preprocessor on evaluation dataset.'')]\<rparr>)"
  by (simp add: predict_transform_def call_transform_def logger_def)

lemma train_after_transform:
  "get_model t name = Inr (n, m) \<Longrightarrow> \<not> is_hf_dataset X \<Longrightarrow> to_numpy w X = Inr X1 \<Longrightarrow>
   train_transform w t tr X1 = (r, t1) \<Longrightarrow>
     \<exists>cs. calls (snd (train w t X (Some y0) name tr p s k)) = calls t1 @ cs"
  by (auto simp: train_def train_arrays_def call_model_def Let_def
      split: sum.splits prod.splits)

lemma predict_after_transform:
  "get_model t name = Inr (n, m) \<Longrightarrow> n \<in> set (pretrained_models t @ trained_models t) \<Longrightarrow>
   \<not> is_hf_dataset X \<Longrightarrow> to_numpy w X = Inr X1 \<Longrightarrow>
   predict_transform w t tr X1 = (r, t1) \<Longrightarrow>
     (\<exists>cs. calls (snd (predict w t X name tr proba s k)) = calls t1 @ cs)
     \<and> log (snd (predict w t X name tr proba s k)) = log t1"
  by (auto simp: predict_def call_model_def split: sum.splits prod.splits)

text \<open>
  Claim C7. \<open>train\<close> never logs anything. On an array or a data frame, when
  \<open>transforms.transform\<close> raises \<open>NotFittedError\<close>, both \<open>train\<close> and \<open>predict\<close>
  call \<open>transforms.fit_transform\<close> on the same array next and go on with what it
  returns (or raises): the calls of the method begin with \<open>transform\<close>,
  \<open>fit_transform\<close>. \<open>train\<close> leaves the log as it was; \<open>predict\<close> adds one
  warning, \<open>Fitting preprocessor on evaluation dataset.\<close>
\<close>

theorem transform_not_fitted_fallback:
  "log (snd (train w t X' y' name' tr' p' s' k')) = log t
   \<and> (get_model t name = Inr (n, m) \<and> \<not> is_hf_dataset X \<and> to_numpy w X = Inr X1
        \<and> transform_op w (calls t) (Transform c X1) = Inl e \<and> is_not_fitted e \<longrightarrow>
      train_transform w t (Some c) X1 =
        (transform_op w (calls t @ [Transform c X1]) (FitTransform c X1),
         t\<lparr>calls := calls t @ [Transform c X1, FitTransform c X1]\<rparr>)
      \<and> (\<exists>cs. calls (snd (train w t X (Some y0) name (Some c) p s k)) =
                 calls t @ [Transform c X1, FitTransform c X1] @ cs)
      \<and> predict_transform w t (Some c) X1 =
        (transform_op w (calls t @ [Transform c X1]) (FitTransform c X1),
         t\<lparr>calls := calls t @ [Transform c X1, FitTransform c X1],
           log := log t @ [(WARNING, ''Fitting preprocessor on evaluation dataset.'')]\<rparr>)
      \<and> (n \<in> set (pretrained_models t @ trained_models t) \<longrightarrow>
           (\<exists>cs. calls (snd (predict w t X name (Some c) proba s k)) =
                   calls t @ [Transform c X1, FitTransform c X1] @ cs)
           \<and> log (snd (predict w t X name (Some c) proba s k)) =
               log t @ [(WARNING, ''Fitting preprocessor on evaluation dataset.'')]))"
proof (intro conjI impI; (elim conjE)?)
  show "log (snd (train w t X' y' name' tr' p' s' k')) = log t"
    by (rule train_never_logs)
next
  assume g: "get_model t name = Inr (n, m)" and raw: "\<not> is_hf_dataset X"
    and x: "to_numpy w X = Inr X1"
    and nf: "transform_op w (calls t) (Transform c X1) = Inl e" "is_not_fitted e"
  show tt: "train_transform w t (Some c) X1 =
        (transform_op w (calls t @ [Transform c X1]) (FitTransform c X1),
         t\<lparr>calls := calls t @ [Transform c X1, FitTransform c X1]\<rparr>)"
    using nf by (rule train_transform_fallback)
  show "\<exists>cs. calls (snd (train w t X (Some y0) name (Some c) p s k)) =
                 calls t @ [Transform c X1, FitTransform c X1] @ cs"
    using train_after_transform [OF g raw x tt, of y0 p s k] by simp
  show pt: "predict_transform w t (Some c) X1 =
        (transform_op w (calls t @ [Transform c X1]) (FitTransform c X1),
         t\<lparr>calls := calls t @ [Transform c X1, FitTransform c X1],
           log := log t @ [(WARNING, ''Fitting preprocessor on evaluation dataset.'')]\<rparr>)"
    using nf by (rule predict_transform_fallback)
  {
    assume f: "n \<in> set (pretrained_models t @ trained_models t)"
    show "\<exists>cs. calls (snd (predict w t X name (Some c) proba s k)) =
                   calls t @ [Transform c X1, FitTransform c X1] @ cs"
      using predict_after_transform [OF g f raw x pt, of proba s k] by simp
    show "log (snd (predict w t X name (Some c) proba s k)) =
               log t @ [(WARNING, ''Fitting preprocessor on evaluation dataset.'')]"
      using predict_after_transform [OF g f raw x pt, of proba s k] by simp
  }
qed

theorem transform_not_fitted_fallback_witness:
  "log (snd (train demo_world ((new_task [(''lr'', SKModel 5)])\<lparr>trained_models := [''lr'']\<rparr>)
       (NdArray [[1, 2], [3, 4]]) (Some (NdArray [[0], [1]])) None
       (Some (ColumnTransformer 7)) None [] [])) = []
   \<and> (\<exists>cs. calls (snd (train demo_world
         ((new_task [(''lr'', SKModel 5)])\<lparr>trained_models := [''lr'']\<rparr>)
         (NdArray [[1, 2], [3, 4]]) (Some (NdArray [[0], [1]])) None
         (Some (ColumnTransformer 7)) None [] [])) =
       [Transform (ColumnTransformer 7) [[1, 2], [3, 4]],
        FitTransform (ColumnTransformer 7) [[1, 2], [3, 4]]] @ cs)
   \<and> (\<exists>cs. calls (snd (predict demo_world
         ((new_task [(''lr'', SKModel 5)])\<lparr>trained_models := [''lr'']\<rparr>)
         (NdArray [[1, 2], [3, 4]]) None (Some (ColumnTransformer 7)) True [] [])) =
       [Transform (ColumnTransformer 7) [[1, 2], [3, 4]],
        FitTransform (ColumnTransformer 7) [[1, 2], [3, 4]]] @ cs)
   \<and> log (snd (predict demo_world
         ((new_task [(''lr'', SKModel 5)])\<lparr>trained_models := [''lr'']\<rparr>)
         (NdArray [[1, 2], [3, 4]]) None (Some (ColumnTransformer 7)) True [] [])) =
       [(WARNING, ''Fitting preprocessor on evaluation dataset.'')]"
proof -
  let ?t = "(new_task [(''lr'', SKModel 5)])\<lparr>trained_models := [''lr'']\<rparr>"
  have g: "get_model ?t None = Inr (''lr'', SKModel 5)"
    by (simp add: get_model_single new_task_def)
  have raw: "\<not> is_hf_dataset (NdArray [[1, 2], [3, 4]])"
    by simp
  have x: "to_numpy demo_world (NdArray [[1, 2], [3, 4]]) = Inr [[1, 2], [3, 4]]"
    by (simp add: demo_world_def)
  have e: "calls ?t = [] \<and> log ?t = []"
    by (simp add: new_task_def)
  have nf: "transform_op demo_world (calls ?t)
      (Transform (ColumnTransformer 7) [[1, 2], [3, 4]]) = Inl (NotFittedError ''not fitted'')"
    by (simp add: demo_world_def e)
  have f: "''lr'' \<in> set (pretrained_models ?t @ trained_models ?t)"
    by (simp add: new_task_def)
  show ?thesis
    using transform_not_fitted_fallback [where w = demo_world and t = ?t
        and X' = "NdArray [[1, 2], [3, 4]]" and y' = "Some (NdArray [[0], [1]])"
        and name' = None and tr' = "Some (ColumnTransformer 7)" and p' = None and s' = "[]"
        and k' = "[]" and name = None and n = "''lr''" and m = "SKModel 5"
        and X = "NdArray [[1, 2], [3, 4]]" and ?X1.0 = "[[1, 2], [3, 4]]"
        and c = "ColumnTransformer 7" and e = "NotFittedError ''not fitted''"
        and ?y0.0 = "NdArray [[0], [1]]" and p = None and s = "[]" and k = "[]"
        and proba = True]
      g raw x nf f e
    by simp
qed

subsection \<open>Fit or search\<close>

lemma pop_value:
  "fst (pop d key dflt) = (case map_of d key of None \<Rightarrow> dflt | Some v \<Rightarrow> v)"
  by (simp add: pop_def split: option.splits)

lemma pop_rest: "snd (pop d key dflt) = AList.delete key d"
  by (auto simp: pop_def map_of_eq_None_iff split: option.splits)

lemma popped_method:
  "fst (pop (AList.delete ''metric'' d) ''method'' dflt) =
     (case map_of d ''method'' of None \<Rightarrow> dflt | Some v \<Rightarrow> v)"
  by (simp add: pop_value delete_conv')

lemma train_dataset_calls:
  "train_dataset w t m X tr p s k =
     call_model w t
       (if truthy_dict p
        then FindBest_dataset m (AList.delete ''method'' (AList.delete ''metric'' (dict_of p)))
               X (task_features t) (task_target t) tr
               (case map_of (dict_of p) ''metric'' of None \<Rightarrow> PyNone | Some v \<Rightarrow> v)
               (case map_of (dict_of p) ''method'' of None \<Rightarrow> PyStr ''grid'' | Some v \<Rightarrow> v)
               s k
        else Fit_dataset m X (task_features t) (task_target t) tr s k)"
  by (simp add: train_dataset_def Let_def pop_rest popped_method pop_value)

lemma train_arrays_calls:
  "to_numpy w X = Inr X1 \<Longrightarrow> train_transform w t tr X1 = (Inr X2, t1) \<Longrightarrow>
   to_numpy w y0 = Inr y1 \<Longrightarrow> length X2 = length y1 \<Longrightarrow>
   train_arrays w t m X (Some y0) tr p k =
     call_model w t1
       (if truthy_dict p
        then FindBest_arrays m (AList.delete ''method'' (AList.delete ''metric'' (dict_of p)))
               X2 y1
               (case map_of (dict_of p) ''metric'' of None \<Rightarrow> PyNone | Some v \<Rightarrow> v)
               (case map_of (dict_of p) ''method'' of None \<Rightarrow> PyStr ''grid'' | Some v \<Rightarrow> v)
               k
        else Fit_arrays m X2 y1 k)"
  by (simp add: train_arrays_def Let_def pop_rest popped_method pop_value)

lemma train_calls_of_branch:
  "get_model t name = Inr (n, m) \<Longrightarrow>
   (if is_hf_dataset X then train_dataset w t m X tr p s k
    else train_arrays w t m X y tr p k) = call_model w t1 c \<Longrightarrow>
   calls (snd (train w t X y name tr p s k)) = calls t1 @ [c]"
  by (simp add: train_def call_model_def split: sum.splits)

text \<open>
  Claim C8. Once the model is resolved, a \<open>train\<close> call on a Hugging Face dataset
  makes exactly one call on the handle. When \<open>best_model_params\<close> is a non-empty
  dict, the call is \<open>find_best\<close>, with the dict less its keys \<open>metric\<close> and
  \<open>method\<close>, with the value that was under \<open>metric\<close> (\<open>None\<close> when there was
  none) and the value that was under \<open>method\<close> (\<open>"grid"\<close> when there was none).
  When \<open>best_model_params\<close> is \<open>None\<close> or empty, the call is the plain \<open>fit\<close>.
  On an array or a data frame the same choice is made, with the same values, once
  the inputs are converted and transformed and their lengths agree; it is the last
  call \<open>train\<close> makes.
\<close>

theorem train_fit_or_search:
  "get_model t name = Inr (n, m) \<longrightarrow>
     (is_hf_dataset X \<longrightarrow>
        calls (snd (train w t X y name tr p s k)) = calls t @
          [if truthy_dict p
           then FindBest_dataset m
                  (AList.delete ''method'' (AList.delete ''metric'' (dict_of p)))
                  X (task_features t) (task_target t) tr
                  (case map_of (dict_of p) ''metric'' of None \<Rightarrow> PyNone | Some v \<Rightarrow> v)
                  (case map_of (dict_of p) ''method'' of
                     None \<Rightarrow> PyStr ''grid'' | Some v \<Rightarrow> v)
                  s k
           else Fit_dataset m X (task_features t) (task_target t) tr s k])
     \<and> (\<not> is_hf_dataset X \<and> to_numpy w X = Inr X1
          \<and> train_transform w t tr X1 = (Inr X2, t1) \<and> to_numpy w y0 = Inr y1
          \<and> length X2 = length y1 \<longrightarrow>
        calls (snd (train w t X (Some y0) name tr p s k)) = calls t1 @
          [if truthy_dict p
           then FindBest_arrays m
                  (AList.delete ''method'' (AList.delete ''metric'' (dict_of p)))
                  X2 y1
                  (case map_of (dict_of p) ''metric'' of None \<Rightarrow> PyNone | Some v \<Rightarrow> v)
                  (case map_of (dict_of p) ''method'' of
                     None \<Rightarrow> PyStr ''grid'' | Some v \<Rightarrow> v)
                  k
           else Fit_arrays m X2 y1 k])"
proof (intro impI conjI; (elim conjE)?)
  assume g: "get_model t name = Inr (n, m)"
  {
    assume "is_hf_dataset X"
    then show "calls (snd (train w t X y name tr p s k)) = calls t @
          [if truthy_dict p
           then FindBest_dataset m
                  (AList.delete ''method'' (AList.delete ''metric'' (dict_of p)))
                  X (task_features t) (task_target t) tr
                  (case map_of (dict_of p) ''metric'' of None \<Rightarrow> PyNone | Some v \<Rightarrow> v)
                  (case map_of (dict_of p) ''method'' of
                     None \<Rightarrow> PyStr ''grid'' | Some v \<Rightarrow> v)
                  s k
           else Fit_dataset m X (task_features t) (task_target t) tr s k]"
      by (intro train_calls_of_branch [OF g]) (simp add: train_dataset_calls)
  }
  {
    assume "\<not> is_hf_dataset X" "to_numpy w X = Inr X1"
      "train_transform w t tr X1 = (Inr X2, t1)" "to_numpy w y0 = Inr y1"
      "length X2 = length y1"
    then show "calls (snd (train w t X (Some y0) name tr p s k)) = calls t1 @
          [if truthy_dict p
           then FindBest_arrays m
                  (AList.delete ''method'' (AList.delete ''metric'' (dict_of p)))
                  X2 y1
                  (case map_of (dict_of p) ''metric'' of None \<Rightarrow> PyNone | Some v \<Rightarrow> v)
                  (case map_of (dict_of p) ''method'' of
                     None \<Rightarrow> PyStr ''grid'' | Some v \<Rightarrow> v)
                  k
           else Fit_arrays m X2 y1 k]"
      by (intro train_calls_of_branch [OF g]) (simp add: train_arrays_calls)
  }
qed

theorem train_fit_or_search_witness:
  "calls (snd (train demo_world (new_task [(''lr'', SKModel 5)]) (HFDatasetDict [(''train'', [''age''])])
       None None None
       (Some [(''metric'', PyStr ''f1''), (''C'', PyList [PyInt 1, PyInt 10])])
       [(''train'', ''train'')] [])) =
     [FindBest_dataset (SKModel 5) [(''C'', PyList [PyInt 1, PyInt 10])]
        (HFDatasetDict [(''train'', [''age''])])
        [''age'', ''sex'', ''admission_type'', ''admission_location''] [''outcome_death'']
        None (PyStr ''f1'') (PyStr ''grid'') [(''train'', ''train'')] []]
   \<and> calls (snd (train demo_world (new_task [(''lr'', SKModel 5)]) (HFDatasetDict [(''train'', [''age''])])
       None None None (Some []) [(''train'', ''train'')] [])) =
     [Fit_dataset (SKModel 5) (HFDatasetDict [(''train'', [''age''])])
        [''age'', ''sex'', ''admission_type'', ''admission_location''] [''outcome_death'']
        None [(''train'', ''train'')] []]
   \<and> calls (snd (train demo_world (new_task [(''lr'', SKModel 5)]) (NdArray [[1, 2], [3, 4]])
       (Some (NdArray [[0], [1]])) None None
       (Some [(''method'', PyStr ''random''), (''C'', PyList [PyInt 1, PyInt 10])])
       [] [])) =
     [FindBest_arrays (SKModel 5) [(''C'', PyList [PyInt 1, PyInt 10])]
        [[1, 2], [3, 4]] [[0], [1]] PyNone (PyStr ''random'') []]
   \<and> calls (snd (train demo_world (new_task [(''lr'', SKModel 5)]) (NdArray [[1, 2], [3, 4]])
       (Some (NdArray [[0], [1]])) None None None [] [])) =
     [Fit_arrays (SKModel 5) [[1, 2], [3, 4]] [[0], [1]] []]"
proof -
  let ?t = "new_task [(''lr'', SKModel 5)]"
  let ?D = "HFDatasetDict [(''train'', [''age''])]"
  have g: "get_model ?t None = Inr (''lr'', SKModel 5)"
    by (simp add: get_model_single new_task_def)
  have x: "to_numpy demo_world (NdArray [[1, 2], [3, 4]]) = Inr [[1, 2], [3, 4]]"
    by (simp add: demo_world_def)
  have y: "to_numpy demo_world (NdArray [[0], [1]]) = Inr [[0], [1]]"
    by (simp add: demo_world_def)
  have tt: "train_transform demo_world ?t None [[1, 2], [3, 4]] = (Inr [[1, 2], [3, 4]], ?t)"
    by (simp add: train_transform_def)
  have e: "calls ?t = []
      \<and> task_features ?t = [''age'', ''sex'', ''admission_type'', ''admission_location'']
      \<and> task_target ?t = [''outcome_death'']"
    by (simp add: new_task_def)
  have c1: "calls (snd (train demo_world ?t ?D None None None
       (Some [(''metric'', PyStr ''f1''), (''C'', PyList [PyInt 1, PyInt 10])])
       [(''train'', ''train'')] [])) =
     [FindBest_dataset (SKModel 5) [(''C'', PyList [PyInt 1, PyInt 10])] ?D
        [''age'', ''sex'', ''admission_type'', ''admission_location''] [''outcome_death'']
        None (PyStr ''f1'') (PyStr ''grid'') [(''train'', ''train'')] []]"
    using train_fit_or_search [where t = ?t and name = None and n = "''lr''"
        and m = "SKModel 5" and X = ?D and w = demo_world and y = None and tr = None
        and p = "Some [(''metric'', PyStr ''f1''), (''C'', PyList [PyInt 1, PyInt 10])]"
        and s = "[(''train'', ''train'')]" and k = "[]"] g e
    by simp
  have c2: "calls (snd (train demo_world ?t ?D None None None (Some [])
       [(''train'', ''train'')] [])) =
     [Fit_dataset (SKModel 5) ?D
        [''age'', ''sex'', ''admission_type'', ''admission_location''] [''outcome_death'']
        None [(''train'', ''train'')] []]"
    using train_fit_or_search [where t = ?t and name = None and n = "''lr''"
        and m = "SKModel 5" and X = ?D and w = demo_world and y = None and tr = None
        and p = "Some []" and s = "[(''train'', ''train'')]" and k = "[]"] g e
    by simp
  have c3: "calls (snd (train demo_world ?t (NdArray [[1, 2], [3, 4]])
       (Some (NdArray [[0], [1]])) None None
       (Some [(''method'', PyStr ''random''), (''C'', PyList [PyInt 1, PyInt 10])])
       [] [])) =
     [FindBest_arrays (SKModel 5) [(''C'', PyList [PyInt 1, PyInt 10])]
        [[1, 2], [3, 4]] [[0], [1]] PyNone (PyStr ''random'') []]"
    using train_fit_or_search [where t = ?t and name = None and n = "''lr''"
        and m = "SKModel 5" and X = "NdArray [[1, 2], [3, 4]]" and w = demo_world
        and tr = None and ?X1.0 = "[[1, 2], [3, 4]]" and ?X2.0 = "[[1, 2], [3, 4]]"
        and ?t1.0 = ?t and ?y0.0 = "NdArray [[0], [1]]" and ?y1.0 = "[[0], [1]]"
        and p = "Some [(''method'', PyStr ''random''), (''C'', PyList [PyInt 1, PyInt 10])]"
        and s = "[]" and k = "[]"] g e x y tt
    by simp
  have c4: "calls (snd (train demo_world ?t (NdArray [[1, 2], [3, 4]])
       (Some (NdArray [[0], [1]])) None None None [] [])) =
     [Fit_arrays (SKModel 5) [[1, 2], [3, 4]] [[0], [1]] []]"
    using train_fit_or_search [where t = ?t and name = None and n = "''lr''"
        and m = "SKModel 5" and X = "NdArray [[1, 2], [3, 4]]" and w = demo_world
        and tr = None and ?X1.0 = "[[1, 2], [3, 4]]" and ?X2.0 = "[[1, 2], [3, 4]]"
        and ?t1.0 = ?t and ?y0.0 = "NdArray [[0], [1]]" and ?y1.0 = "[[0], [1]]"
        and p = None and s = "[]" and k = "[]"] g e x y tt
    by simp
  from c1 c2 c3 c4 show ?thesis by blast
qed

end
